theory Spec2Isabelle
  imports Main
begin

section \<open>Errors\<close>

text \<open>
  Go's \<^verbatim>\<open>error\<close> is an interface whose nil value means "no error"; a possibly-nil
  error is an \<open>error option\<close> here, \<open>None\<close> being nil. The controller builds errors with
  \<^verbatim>\<open>errors.New\<close> and \<^verbatim>\<open>errors.Wrap\<close> of github.com/pkg/errors. \<^verbatim>\<open>errors.New\<close> makes a
  fresh error from a message, \<^verbatim>\<open>errors.Wrap\<close> returns nil when given nil and otherwise
  an error that carries the cause and the message. Errors handed back by the API
  client are values of the same type.
\<close>

datatype error = Fundamental string | WithMessage error string

definition New :: "string \<Rightarrow> error" where
  "New message = Fundamental message"

fun Wrap :: "error option \<Rightarrow> string \<Rightarrow> error option" where
  "Wrap None message = None"
| "Wrap (Some err) message = Some (WithMessage err message)"

text \<open>The text of an error: a wrapped error prints its message, a colon, and its cause.\<close>

fun Error :: "error \<Rightarrow> string" where
  "Error (Fundamental msg) = msg"
| "Error (WithMessage cause msg) = msg @ '': '' @ Error cause"

text \<open>
  \<^verbatim>\<open>resource.ErrorIs\<close> is a predicate on (possibly nil) errors, and \<^verbatim>\<open>resource.Ignore\<close>
  returns nil for the errors that satisfy it and every other error as it is.
  \<^verbatim>\<open>uperrors.IsNotFound\<close> belongs to the Upbound SDK; the operations below take it as
  a parameter of this type, so nothing is assumed about how it classifies.
\<close>

type_synonym ErrorIs = "error option \<Rightarrow> bool"

definition Ignore :: "ErrorIs \<Rightarrow> error option \<Rightarrow> error option" where
  "Ignore is err = (if is err then None else err)"

definition errNotPermission :: string where
  "errNotPermission = ''managed resource is not a RepositoryPermission custom resource''"

definition errTrackPCUsage :: string where
  "errTrackPCUsage = ''cannot track ProviderConfig usage''"

definition errNewClient :: string where
  "errNewClient = ''cannot create new client''"

section \<open>The managed resource\<close>

text \<open>
  \<^verbatim>\<open>pointer.StringDeref(ptr, def)\<close> reads an optional string: the default when the
  pointer is nil.
\<close>

fun StringDeref :: "string option \<Rightarrow> string \<Rightarrow> string" where
  "StringDeref None def = def"
| "StringDeref (Some s) def = s"

text \<open>
  A status condition (its timestamp is left out: \<^verbatim>\<open>Condition.Equal\<close> ignores it, and
  it is read from the clock).
\<close>

record Condition =
  Type :: string
  Status :: string
  Reason :: string
  Message :: string

definition Available :: Condition where
  "Available = \<lparr>Type = ''Ready'', Status = ''True'', Reason = ''Available'', Message = ''''\<rparr>"

text \<open>
  \<^verbatim>\<open>ConditionedStatus.SetConditions\<close> for one condition: every existing condition of
  the same type is overwritten (one that is already equal stays), and the condition is
  appended when no existing one has its type. \<^verbatim>\<open>GetCondition\<close> returns the first
  condition of the type asked for, or an Unknown one.
\<close>

fun replaceCondition :: "Condition \<Rightarrow> Condition list \<Rightarrow> Condition list \<times> bool" where
  "replaceCondition new [] = ([], False)"
| "replaceCondition new (existing # rest) =
     (let (rest', exists) = replaceCondition new rest
      in if Type existing \<noteq> Type new then (existing # rest', exists)
         else if existing = new then (existing # rest', True)
         else (new # rest', True))"

definition SetCondition :: "Condition list \<Rightarrow> Condition \<Rightarrow> Condition list" where
  "SetCondition cs new =
     (let (cs', exists) = replaceCondition new cs
      in if \<not> exists then cs' @ [new] else cs')"

fun SetConditions :: "Condition list \<Rightarrow> Condition list \<Rightarrow> Condition list" where
  "SetConditions cs [] = cs"
| "SetConditions cs (new # c) = SetConditions (SetCondition cs new) c"

fun GetCondition :: "Condition list \<Rightarrow> string \<Rightarrow> Condition" where
  "GetCondition [] ct = \<lparr>Type = ct, Status = ''Unknown'', Reason = '''', Message = ''''\<rparr>"
| "GetCondition (c # cs) ct = (if Type c = ct then c else GetCondition cs ct)"

text \<open>
  The Permission kind, as far as the controller and the generated accessors read it.
  The optional parameters are pointers in the source. Annotations are a map from keys
  to values; the external name is the annotation \<^verbatim>\<open>crossplane.io/external-name\<close>.
\<close>

record PermissionParameters =
  OrganizationName :: string
  Repository :: "string option"
  TeamID :: "string option"
  Permission :: string

record PermissionSpec =
  ForProvider :: PermissionParameters
  DeletionPolicy :: string
  ManagementPolicies :: "string list"
  ProviderConfigReference :: "string option"
  PublishConnectionDetailsTo :: "string option"
  WriteConnectionSecretToReference :: "string option"

record PermissionStatus =
  Conditions :: "Condition list"

record ObjectMeta =
  Name :: string
  Annotations :: "string \<rightharpoonup> string"

record Permission =
  ObjectMeta :: ObjectMeta
  Spec :: PermissionSpec
  Status :: PermissionStatus

text \<open>
  \<^verbatim>\<open>resource.Managed\<close> is an interface; the operations assert that the value behind it is
  a \<^verbatim>\<open>*v1alpha1.Permission\<close>. A value of any other kind is its kind name and metadata.
\<close>

datatype Managed = PermissionKind Permission | OtherKind string ObjectMeta

definition Permission_GetCondition :: "Permission \<Rightarrow> string \<Rightarrow> Condition" where
  "Permission_GetCondition mg ct = GetCondition (Conditions (Permission.Status mg)) ct"

definition Permission_SetConditions :: "Permission \<Rightarrow> Condition list \<Rightarrow> Permission" where
  "Permission_SetConditions mg c =
     mg\<lparr>Permission.Status :=
          (Permission.Status mg)\<lparr>Conditions := SetConditions (Conditions (Permission.Status mg)) c\<rparr>\<rparr>"

definition AnnotationKeyExternalName :: string where
  "AnnotationKeyExternalName = ''crossplane.io/external-name''"

definition SetExternalName :: "Permission \<Rightarrow> string \<Rightarrow> Permission" where
  "SetExternalName o' name =
     o'\<lparr>ObjectMeta := (ObjectMeta o')\<lparr>Annotations :=
          (Annotations (ObjectMeta o'))(AnnotationKeyExternalName \<mapsto> name)\<rparr>\<rparr>"

text \<open>
  The external-identity field of a record: \<open>None\<close> while the annotation is unset.
\<close>

definition ExternalName :: "Permission \<Rightarrow> string option" where
  "ExternalName o' = Annotations (ObjectMeta o') AnnotationKeyExternalName"

definition Managed_ExternalName :: "Managed \<Rightarrow> string option" where
  "Managed_ExternalName mg =
     (case mg of PermissionKind cr \<Rightarrow> ExternalName cr
      | OtherKind kind om \<Rightarrow> Annotations om AnnotationKeyExternalName)"

section \<open>The API client and the outside world\<close>

text \<open>
  The parameters of the client's calls. \<^verbatim>\<open>Get\<close> and \<^verbatim>\<open>Delete\<close> take the structural key,
  \<^verbatim>\<open>Create\<close> takes the key and the permission level.
\<close>

record GetParameters =
  Repository :: string
  Organization :: string
  TeamID :: string

record CreateParameters =
  Repository :: string
  Organization :: string
  TeamID :: string
  Permission :: string

text \<open>
  The client of package \<^verbatim>\<open>internal/client/repositorypermission\<close> is a parameter of the
  controller: three calls, each of which reads and may change the state \<open>'r\<close> of the
  remote service and answers with a possibly-nil error.
\<close>

record 'r Client =
  Get :: "GetParameters \<Rightarrow> 'r \<Rightarrow> error option \<times> 'r"
  Create :: "CreateParameters \<Rightarrow> 'r \<Rightarrow> error option \<times> 'r"
  Delete :: "GetParameters \<Rightarrow> 'r \<Rightarrow> error option \<times> 'r"

text \<open>
  Every call that leaves the controller is recorded, in order, next to the state of
  the outside: an operation that makes no call leaves the world as it found it.
\<close>

datatype call =
  GetCall GetParameters
| CreateCall CreateParameters
| DeleteCall GetParameters
| TrackCall
| NewConfigCall

record 'r world =
  remote :: 'r
  calls :: "call list"

definition client_Get :: "'r Client \<Rightarrow> GetParameters \<Rightarrow> 'r world \<Rightarrow> error option \<times> 'r world" where
  "client_Get c p w =
     (let (err, r') = Get c p (remote w)
      in (err, \<lparr>remote = r', calls = calls w @ [GetCall p]\<rparr>))"

definition client_Create :: "'r Client \<Rightarrow> CreateParameters \<Rightarrow> 'r world \<Rightarrow> error option \<times> 'r world" where
  "client_Create c p w =
     (let (err, r') = Create c p (remote w)
      in (err, \<lparr>remote = r', calls = calls w @ [CreateCall p]\<rparr>))"

definition client_Delete :: "'r Client \<Rightarrow> GetParameters \<Rightarrow> 'r world \<Rightarrow> error option \<times> 'r world" where
  "client_Delete c p w =
     (let (err, r') = Delete c p (remote w)
      in (err, \<lparr>remote = r', calls = calls w @ [DeleteCall p]\<rparr>))"

section \<open>The external client: Observe, Create, Update, Delete\<close>

record ExternalObservation =
  ResourceExists :: bool
  ResourceUpToDate :: bool
  ResourceLateInitialized :: bool
  ConnectionDetails :: "string \<rightharpoonup> string"

record ExternalCreation =
  ConnectionDetails :: "string \<rightharpoonup> string"

record ExternalUpdate =
  ConnectionDetails :: "string \<rightharpoonup> string"

text \<open>The zero values \<^verbatim>\<open>managed.ExternalObservation{}\<close>, \<^verbatim>\<open>ExternalCreation{}\<close>, \<^verbatim>\<open>ExternalUpdate{}\<close>.\<close>

definition ExternalObservation_zero :: ExternalObservation where
  "ExternalObservation_zero =
     \<lparr>ResourceExists = False, ResourceUpToDate = False, ResourceLateInitialized = False,
      ExternalObservation.ConnectionDetails = Map.empty\<rparr>"

definition ExternalCreation_zero :: ExternalCreation where
  "ExternalCreation_zero = \<lparr>ExternalCreation.ConnectionDetails = Map.empty\<rparr>"

definition ExternalUpdate_zero :: ExternalUpdate where
  "ExternalUpdate_zero = \<lparr>ExternalUpdate.ConnectionDetails = Map.empty\<rparr>"

record 'r external =
  repositorypermission :: "'r Client"

text \<open>
  The structural key and the creation parameters that the operations build from a
  record's spec.
\<close>

definition keyOf :: "Permission \<Rightarrow> GetParameters" where
  "keyOf cr =
     \<lparr>GetParameters.Repository =
        StringDeref (PermissionParameters.Repository (ForProvider (Spec cr))) '''',
      GetParameters.Organization = OrganizationName (ForProvider (Spec cr)),
      GetParameters.TeamID =
        StringDeref (PermissionParameters.TeamID (ForProvider (Spec cr))) ''''\<rparr>"

definition createParametersOf :: "Permission \<Rightarrow> CreateParameters" where
  "createParametersOf cr =
     \<lparr>CreateParameters.Repository =
        StringDeref (PermissionParameters.Repository (ForProvider (Spec cr))) '''',
      CreateParameters.Organization = OrganizationName (ForProvider (Spec cr)),
      CreateParameters.TeamID =
        StringDeref (PermissionParameters.TeamID (ForProvider (Spec cr))) '''',
      CreateParameters.Permission = PermissionParameters.Permission (ForProvider (Spec cr))\<rparr>"

text \<open>
  Each operation takes the managed resource by reference and may change it, so the
  model returns the results of the Go function, then the resource and the world as the
  call leaves them.
\<close>

definition Observe ::
  "ErrorIs \<Rightarrow> 'r external \<Rightarrow> Managed \<Rightarrow> 'r world
     \<Rightarrow> (ExternalObservation \<times> error option) \<times> Managed \<times> 'r world" where
  "Observe IsNotFound c mg w =
     (case mg of
        OtherKind kind om \<Rightarrow> ((ExternalObservation_zero, Some (New errNotPermission)), mg, w)
      | PermissionKind cr \<Rightarrow>
          (let (err, w') = client_Get (repositorypermission c) (keyOf cr) w
           in if err \<noteq> None
              then ((ExternalObservation_zero, Wrap (Ignore IsNotFound err) ''failed to get team''),
                    PermissionKind cr, w')
              else ((\<lparr>ResourceExists = True, ResourceUpToDate = True,
                      ResourceLateInitialized = False,
                      ExternalObservation.ConnectionDetails = Map.empty\<rparr>, None),
                    PermissionKind (Permission_SetConditions cr [Available]), w')))"

definition Create_op ::
  "'r external \<Rightarrow> Managed \<Rightarrow> 'r world
     \<Rightarrow> (ExternalCreation \<times> error option) \<times> Managed \<times> 'r world" where
  "Create_op c mg w =
     (case mg of
        OtherKind kind om \<Rightarrow> ((ExternalCreation_zero, Some (New errNotPermission)), mg, w)
      | PermissionKind cr \<Rightarrow>
          (let (err, w') = client_Create (repositorypermission c) (createParametersOf cr) w
           in if err \<noteq> None
              then ((ExternalCreation_zero, Wrap err ''failed to create repository permission''),
                    PermissionKind cr, w')
              else ((ExternalCreation_zero, None),
                    PermissionKind (SetExternalName cr
                      (StringDeref (PermissionParameters.Repository (ForProvider (Spec cr))) '''')),
                    w')))"

definition Update ::
  "'r external \<Rightarrow> Managed \<Rightarrow> 'r world
     \<Rightarrow> (ExternalUpdate \<times> error option) \<times> Managed \<times> 'r world" where
  "Update c mg w = ((ExternalUpdate_zero, None), mg, w)"

definition Delete_op ::
  "ErrorIs \<Rightarrow> 'r external \<Rightarrow> Managed \<Rightarrow> 'r world \<Rightarrow> error option \<times> Managed \<times> 'r world" where
  "Delete_op IsNotFound c mg w =
     (case mg of
        OtherKind kind om \<Rightarrow> (Some (New errNotPermission), mg, w)
      | PermissionKind cr \<Rightarrow>
          (let (err, w') = client_Delete (repositorypermission c) (keyOf cr) w
           in (Wrap (Ignore IsNotFound err) ''cannot delete repositroy permission'',
               PermissionKind cr, w')))"

section \<open>The connector\<close>

text \<open>
  \<^verbatim>\<open>Connect\<close> calls the usage tracker, \<^verbatim>\<open>upclient.NewConfig\<close> and
  \<^verbatim>\<open>repositorypermission.NewClient\<close>. None of the three is defined in the controller,
  so the connector carries them: the tracker and the configuration lookup work on the
  outside world and may fail, the client constructor is a function of the
  configuration.
\<close>

record ('r, 'cfg) connector =
  usage_Track :: "Managed \<Rightarrow> 'r \<Rightarrow> error option \<times> 'r"
  NewConfig :: "Permission \<Rightarrow> 'r \<Rightarrow> (error + 'cfg) \<times> 'r"
  NewClient :: "'cfg \<Rightarrow> 'r Client"

definition connector_Track ::
  "('r, 'cfg) connector \<Rightarrow> Managed \<Rightarrow> 'r world \<Rightarrow> error option \<times> 'r world" where
  "connector_Track c mg w =
     (let (err, r') = usage_Track c mg (remote w)
      in (err, \<lparr>remote = r', calls = calls w @ [TrackCall]\<rparr>))"

definition connector_NewConfig ::
  "('r, 'cfg) connector \<Rightarrow> Permission \<Rightarrow> 'r world \<Rightarrow> (error + 'cfg) \<times> 'r world" where
  "connector_NewConfig c cr w =
     (let (res, r') = NewConfig c cr (remote w)
      in (res, \<lparr>remote = r', calls = calls w @ [NewConfigCall]\<rparr>))"

definition Connect ::
  "('r, 'cfg) connector \<Rightarrow> Managed \<Rightarrow> 'r world
     \<Rightarrow> ('r external option \<times> error option) \<times> 'r world" where
  "Connect c mg w =
     (case mg of
        OtherKind kind om \<Rightarrow> ((None, Some (New errNotPermission)), w)
      | PermissionKind cr \<Rightarrow>
          (let (err, w1) = connector_Track c mg w
           in if err \<noteq> None then ((None, Wrap err errTrackPCUsage), w1)
              else (let (res, w2) = connector_NewConfig c cr w1
                    in case res of
                         Inl e \<Rightarrow> ((None, Wrap (Some e) errNewClient), w2)
                       | Inr cfg \<Rightarrow>
                           ((Some \<lparr>repositorypermission = NewClient c cfg\<rparr>, None), w2))))"

section \<open>Concrete collaborators\<close>

text \<open>
  Modelled from the spec: the client of package \<^verbatim>\<open>internal/client/repositorypermission\<close>
  lives outside the controller. The specification describes its contract: Get fails
  with NotFound when no object matches the structural key, Create submits the full
  parameters, Delete answers success or NotFound. \<open>storeClient\<close> is such a client over
  a list of grants, with one NotFound error that \<open>store_IsNotFound\<close> recognises. The
  theorems below hold for every client and every classification of errors; this client
  only serves as a concrete case of them.
\<close>

definition grantKey :: "CreateParameters \<Rightarrow> GetParameters" where
  "grantKey g =
     \<lparr>GetParameters.Repository = CreateParameters.Repository g,
      GetParameters.Organization = CreateParameters.Organization g,
      GetParameters.TeamID = CreateParameters.TeamID g\<rparr>"

definition errRemoteNotFound :: error where
  "errRemoteNotFound = Fundamental ''404 not found''"

definition store_IsNotFound :: ErrorIs where
  "store_IsNotFound err = (err = Some errRemoteNotFound)"

definition storeClient :: "CreateParameters list Client" where
  "storeClient =
     \<lparr>Get = (\<lambda>p r. case find (\<lambda>g. grantKey g = p) r of
                      None \<Rightarrow> (Some errRemoteNotFound, r)
                    | Some g \<Rightarrow> (None, r)),
      Create = (\<lambda>p r. (None, p # filter (\<lambda>g. grantKey g \<noteq> grantKey p) r)),
      Delete = (\<lambda>p r. case find (\<lambda>g. grantKey g = p) r of
                         None \<Rightarrow> (Some errRemoteNotFound, r)
                       | Some g \<Rightarrow> (None, filter (\<lambda>g. grantKey g \<noteq> p) r))\<rparr>"

text \<open>
  A client whose every call fails with the given error, a connector whose tracker and
  configuration lookup answer as told, and some resources: the record of the
  specification's first scenario, a record whose optional fields are nil, a resource
  of another kind, and the first record with an external name that is not its
  repository.
\<close>

definition errUnauthorized :: error where
  "errUnauthorized = Fundamental ''401 unauthorized''"

definition brokenClient :: "error \<Rightarrow> 'r Client" where
  "brokenClient e =
     \<lparr>Get = (\<lambda>p r. (Some e, r)), Create = (\<lambda>p r. (Some e, r)), Delete = (\<lambda>p r. (Some e, r))\<rparr>"

definition stubConnector ::
  "error option \<Rightarrow> error + string \<Rightarrow> (CreateParameters list, string) connector" where
  "stubConnector trackErr cfgRes =
     \<lparr>usage_Track = (\<lambda>mg r. (trackErr, r)), NewConfig = (\<lambda>cr r. (cfgRes, r)),
      NewClient = (\<lambda>cfg. storeClient)\<rparr>"

definition infra :: Permission where
  "infra =
     \<lparr>ObjectMeta = \<lparr>Name = ''infra-sre'', Annotations = Map.empty\<rparr>,
      Spec = \<lparr>ForProvider = \<lparr>OrganizationName = ''acme'', PermissionParameters.Repository = Some ''infra'',
                               PermissionParameters.TeamID = Some ''sre'',
                               PermissionParameters.Permission = ''admin''\<rparr>,
              DeletionPolicy = ''Delete'', ManagementPolicies = [],
              ProviderConfigReference = Some ''default'',
              PublishConnectionDetailsTo = None, WriteConnectionSecretToReference = None\<rparr>,
      Status = \<lparr>Conditions = []\<rparr>\<rparr>"

definition nilFields :: Permission where
  "nilFields =
     \<lparr>ObjectMeta = \<lparr>Name = ''no-repo'', Annotations = Map.empty\<rparr>,
      Spec = \<lparr>ForProvider = \<lparr>OrganizationName = ''acme'', PermissionParameters.Repository = None,
                               PermissionParameters.TeamID = None,
                               PermissionParameters.Permission = ''read''\<rparr>,
              DeletionPolicy = ''Delete'', ManagementPolicies = [],
              ProviderConfigReference = None,
              PublishConnectionDetailsTo = None, WriteConnectionSecretToReference = None\<rparr>,
      Status = \<lparr>Conditions = []\<rparr>\<rparr>"

definition teamResource :: Managed where
  "teamResource = OtherKind ''Team'' \<lparr>Name = ''sre'', Annotations = Map.empty\<rparr>"

definition imported :: Permission where
  "imported = SetExternalName infra ''old''"

section \<open>Conditions and the external name\<close>

lemma replaceCondition_found:
  "replaceCondition new cs = (cs', True) \<Longrightarrow> GetCondition cs' (Type new) = new"
proof (induction cs arbitrary: cs')
  case Nil
  then show ?case by simp
next
  case (Cons c cs)
  obtain rest' ex where r: "replaceCondition new cs = (rest', ex)" by (cases "replaceCondition new cs")
  with Cons show ?case by (auto split: if_splits)
qed

lemma replaceCondition_missing:
  "replaceCondition new cs = (cs', False) \<Longrightarrow> GetCondition (cs' @ ds) (Type new) = GetCondition ds (Type new)"
proof (induction cs arbitrary: cs')
  case Nil
  then show ?case by simp
next
  case (Cons c cs)
  obtain rest' ex where r: "replaceCondition new cs = (rest', ex)" by (cases "replaceCondition new cs")
  with Cons show ?case by (auto split: if_splits)
qed

lemma GetCondition_SetCondition: "GetCondition (SetCondition cs new) (Type new) = new"
proof -
  obtain cs' ex where r: "replaceCondition new cs = (cs', ex)" by (cases "replaceCondition new cs")
  show ?thesis
  proof (cases ex)
    case True
    with r show ?thesis by (simp add: SetCondition_def replaceCondition_found)
  next
    case False
    with r show ?thesis using replaceCondition_missing [of new cs cs' "[new]"]
      by (simp add: SetCondition_def)
  qed
qed

lemma Permission_GetCondition_Available:
  "Permission_GetCondition (Permission_SetConditions cr [Available]) (Type Available) = Available"
  by (simp add: Permission_GetCondition_def Permission_SetConditions_def GetCondition_SetCondition)

lemma ExternalName_SetExternalName: "ExternalName (SetExternalName cr name) = Some name"
  by (simp add: ExternalName_def SetExternalName_def)

lemma ExternalName_SetConditions: "ExternalName (Permission_SetConditions cr c) = ExternalName cr"
  by (simp add: ExternalName_def Permission_SetConditions_def)

lemma Managed_ExternalName_Observe:
  "Managed_ExternalName (fst (snd (Observe IsNotFound c mg w))) = Managed_ExternalName mg"
  by (cases mg)
    (auto simp: Observe_def Managed_ExternalName_def ExternalName_SetConditions
      split: prod.splits)

lemma Managed_ExternalName_Delete:
  "Managed_ExternalName (fst (snd (Delete_op IsNotFound c mg w))) = Managed_ExternalName mg"
  by (cases mg) (auto simp: Delete_op_def Managed_ExternalName_def split: prod.splits)

lemma Create_keeps_spec:
  "\<exists>cr'. fst (snd (Create_op c (PermissionKind cr) w)) = PermissionKind cr'
     \<and> Spec cr' = Spec cr \<and> Permission.Status cr' = Permission.Status cr"
  by (auto simp: Create_op_def SetExternalName_def split: prod.splits)

lemmas double_defs = storeClient_def brokenClient_def grantKey_def errRemoteNotFound_def
  store_IsNotFound_def infra_def keyOf_def createParametersOf_def

section \<open>Observe\<close>

text \<open>
  Claim C1. For a Permission record, when the client's Get returns no error, Observe
  answers that the resource exists and is up to date, with no error, and leaves the
  record with its Ready condition set to Available; spec and metadata are untouched.
  Nothing of the record's spec is compared with the remote object: the answer is the
  same for every spec.
\<close>

theorem Observe_Get_succeeds:
  assumes "Get (repositorypermission c) (keyOf cr) (remote w) = (None, r')"
  shows "Observe IsNotFound c (PermissionKind cr) w =
           ((\<lparr>ResourceExists = True, ResourceUpToDate = True, ResourceLateInitialized = False,
              ExternalObservation.ConnectionDetails = Map.empty\<rparr>, None),
            PermissionKind (Permission_SetConditions cr [Available]),
            \<lparr>remote = r', calls = calls w @ [GetCall (keyOf cr)]\<rparr>)
         \<and> Permission_GetCondition (Permission_SetConditions cr [Available]) ''Ready'' = Available
         \<and> Spec (Permission_SetConditions cr [Available]) = Spec cr
         \<and> ObjectMeta (Permission_SetConditions cr [Available]) = ObjectMeta cr"
proof -
  have "Observe IsNotFound c (PermissionKind cr) w =
           ((\<lparr>ResourceExists = True, ResourceUpToDate = True, ResourceLateInitialized = False,
              ExternalObservation.ConnectionDetails = Map.empty\<rparr>, None),
            PermissionKind (Permission_SetConditions cr [Available]),
            \<lparr>remote = r', calls = calls w @ [GetCall (keyOf cr)]\<rparr>)"
    using assms by (simp add: Observe_def client_Get_def)
  moreover have "Permission_GetCondition (Permission_SetConditions cr [Available]) ''Ready'' = Available"
    using Permission_GetCondition_Available [of cr] by (simp add: Available_def)
  moreover have "Spec (Permission_SetConditions cr [Available]) = Spec cr"
    by (simp add: Permission_SetConditions_def)
  moreover have "ObjectMeta (Permission_SetConditions cr [Available]) = ObjectMeta cr"
    by (simp add: Permission_SetConditions_def)
  ultimately show ?thesis by simp
qed

theorem Observe_Get_succeeds_witness:
  "Get storeClient (keyOf infra) [createParametersOf infra] = (None, [createParametersOf infra])
   \<and> Observe store_IsNotFound \<lparr>repositorypermission = storeClient\<rparr> (PermissionKind infra)
         \<lparr>remote = [createParametersOf infra], calls = []\<rparr> =
       ((\<lparr>ResourceExists = True, ResourceUpToDate = True, ResourceLateInitialized = False,
          ExternalObservation.ConnectionDetails = Map.empty\<rparr>, None),
        PermissionKind (Permission_SetConditions infra [Available]),
        \<lparr>remote = [createParametersOf infra], calls = [GetCall (keyOf infra)]\<rparr>)
   \<and> Permission_GetCondition (Permission_SetConditions infra [Available]) ''Ready'' = Available"
proof -
  have h: "Get (repositorypermission \<lparr>repositorypermission = storeClient\<rparr>) (keyOf infra)
             (remote \<lparr>remote = [createParametersOf infra], calls = []\<rparr>)
           = (None, [createParametersOf infra])"
    by (simp add: double_defs)
  show ?thesis
    using Observe_Get_succeeds [OF h, of store_IsNotFound] h by simp
qed

text \<open>
  Claim C2. For a Permission record, when the client's Get fails with an error that
  IsNotFound accepts, Observe returns the zero observation, whose \<open>ResourceExists\<close> is
  false, and a nil error; the record is unchanged.
\<close>

theorem Observe_NotFound:
  assumes "Get (repositorypermission c) (keyOf cr) (remote w) = (Some e, r')"
    and "IsNotFound (Some e)"
  shows "Observe IsNotFound c (PermissionKind cr) w =
           ((ExternalObservation_zero, None), PermissionKind cr,
            \<lparr>remote = r', calls = calls w @ [GetCall (keyOf cr)]\<rparr>)
         \<and> ResourceExists (fst (fst (Observe IsNotFound c (PermissionKind cr) w))) = False
         \<and> snd (fst (Observe IsNotFound c (PermissionKind cr) w)) = None"
  using assms by (simp add: Observe_def client_Get_def Ignore_def ExternalObservation_zero_def)

theorem Observe_NotFound_witness:
  "Get storeClient (keyOf infra) [] = (Some errRemoteNotFound, [])
   \<and> store_IsNotFound (Some errRemoteNotFound)
   \<and> ExternalName infra = None
   \<and> Observe store_IsNotFound \<lparr>repositorypermission = storeClient\<rparr> (PermissionKind infra)
         \<lparr>remote = [], calls = []\<rparr> =
       ((ExternalObservation_zero, None), PermissionKind infra,
        \<lparr>remote = [], calls = [GetCall (keyOf infra)]\<rparr>)"
proof -
  have h: "Get (repositorypermission \<lparr>repositorypermission = storeClient\<rparr>) (keyOf infra)
             (remote \<lparr>remote = [], calls = []\<rparr>) = (Some errRemoteNotFound, [])"
    by (simp add: double_defs)
  have n: "store_IsNotFound (Some errRemoteNotFound)"
    by (simp add: store_IsNotFound_def)
  have u: "ExternalName infra = None"
    by (simp add: ExternalName_def infra_def)
  show ?thesis
    using Observe_NotFound [where IsNotFound = store_IsNotFound
        and c = "\<lparr>repositorypermission = storeClient\<rparr>" and cr = infra
        and w = "\<lparr>remote = [], calls = []\<rparr>" and e = errRemoteNotFound and r' = "[]"] h n u
    by simp
qed

text \<open>
  Claim C3. For a Permission record, when the client's Get fails with an error that
  IsNotFound rejects, Observe returns that error wrapped with the message "failed to get
  team", so the answer is not "absent, no error". Observe returns an error exactly when
  Get fails with such an error.
\<close>

theorem Observe_other_failure:
  "(Get (repositorypermission c) (keyOf cr) (remote w) = (Some e, r') \<and> \<not> IsNotFound (Some e)
      \<longrightarrow> Observe IsNotFound c (PermissionKind cr) w =
            ((ExternalObservation_zero, Some (WithMessage e ''failed to get team'')),
             PermissionKind cr, \<lparr>remote = r', calls = calls w @ [GetCall (keyOf cr)]\<rparr>)
          \<and> Error (WithMessage e ''failed to get team'') = ''failed to get team: '' @ Error e)
   \<and> (snd (fst (Observe IsNotFound c (PermissionKind cr) w)) \<noteq> None
        \<longleftrightarrow> (\<exists>e. fst (Get (repositorypermission c) (keyOf cr) (remote w)) = Some e
                  \<and> \<not> IsNotFound (Some e)))"
proof -
  obtain err r where g: "Get (repositorypermission c) (keyOf cr) (remote w) = (err, r)"
    by (cases "Get (repositorypermission c) (keyOf cr) (remote w)")
  show ?thesis
  proof (cases err)
    case None
    with g show ?thesis by (simp add: Observe_def client_Get_def)
  next
    case (Some e0)
    with g show ?thesis
      by (cases "IsNotFound (Some e0)") (simp_all add: Observe_def client_Get_def Ignore_def)
  qed
qed

theorem Observe_other_failure_witness:
  "Get (brokenClient errUnauthorized) (keyOf infra) () = (Some errUnauthorized, ())
   \<and> \<not> store_IsNotFound (Some errUnauthorized)
   \<and> Observe store_IsNotFound \<lparr>repositorypermission = brokenClient errUnauthorized\<rparr>
         (PermissionKind infra) \<lparr>remote = (), calls = []\<rparr> =
       ((ExternalObservation_zero, Some (WithMessage errUnauthorized ''failed to get team'')),
        PermissionKind infra, \<lparr>remote = (), calls = [GetCall (keyOf infra)]\<rparr>)
   \<and> Error (WithMessage errUnauthorized ''failed to get team'')
       = ''failed to get team: 401 unauthorized''"
proof -
  have h: "Get (repositorypermission \<lparr>repositorypermission = brokenClient errUnauthorized\<rparr>)
             (keyOf infra) (remote \<lparr>remote = (), calls = []\<rparr>) = (Some errUnauthorized, ())"
    by (simp add: brokenClient_def)
  have n: "\<not> store_IsNotFound (Some errUnauthorized)"
    by (simp add: store_IsNotFound_def errUnauthorized_def errRemoteNotFound_def)
  have m: "Error errUnauthorized = ''401 unauthorized''"
    by (simp add: errUnauthorized_def)
  show ?thesis
    using Observe_other_failure [where IsNotFound = store_IsNotFound
        and c = "\<lparr>repositorypermission = brokenClient errUnauthorized\<rparr>" and cr = infra
        and w = "\<lparr>remote = (), calls = []\<rparr>" and e = errUnauthorized and r' = "()"] h n m
    by simp
qed

section \<open>Create\<close>

text \<open>
  Claim C4. For a Permission record, when the client's Create returns no error,
  Create sets the external name to the record's repository and returns the empty
  creation result with a nil error. When the client's Create fails, Create returns the
  error wrapped and the record is unchanged, so an unset external name stays unset.
\<close>

theorem Create_binds_external_name:
  "(Create (repositorypermission c) (createParametersOf cr) (remote w) = (None, r')
      \<longrightarrow> Create_op c (PermissionKind cr) w =
            ((ExternalCreation_zero, None),
             PermissionKind (SetExternalName cr
               (StringDeref (PermissionParameters.Repository (ForProvider (Spec cr))) '''')),
             \<lparr>remote = r', calls = calls w @ [CreateCall (createParametersOf cr)]\<rparr>)
          \<and> Managed_ExternalName (fst (snd (Create_op c (PermissionKind cr) w)))
              = Some (StringDeref (PermissionParameters.Repository (ForProvider (Spec cr))) ''''))
   \<and> (Create (repositorypermission c) (createParametersOf cr) (remote w) = (None, r')
        \<and> PermissionParameters.Repository (ForProvider (Spec cr)) = Some repo
      \<longrightarrow> Managed_ExternalName (fst (snd (Create_op c (PermissionKind cr) w))) = Some repo)
   \<and> (Create (repositorypermission c) (createParametersOf cr) (remote w) = (Some e, r')
      \<longrightarrow> Create_op c (PermissionKind cr) w =
            ((ExternalCreation_zero, Some (WithMessage e ''failed to create repository permission'')),
             PermissionKind cr,
             \<lparr>remote = r', calls = calls w @ [CreateCall (createParametersOf cr)]\<rparr>))
   \<and> (Create (repositorypermission c) (createParametersOf cr) (remote w) = (Some e, r')
        \<and> ExternalName cr = None
      \<longrightarrow> Managed_ExternalName (fst (snd (Create_op c (PermissionKind cr) w))) = None)"
  by (simp add: Create_op_def client_Create_def Managed_ExternalName_def
      ExternalName_SetExternalName)

theorem Create_binds_external_name_witness:
  "Create storeClient (createParametersOf infra) [] = (None, [createParametersOf infra])
   \<and> PermissionParameters.Repository (ForProvider (Spec infra)) = Some ''infra''
   \<and> Create_op \<lparr>repositorypermission = storeClient\<rparr> (PermissionKind infra)
         \<lparr>remote = [], calls = []\<rparr> =
       ((ExternalCreation_zero, None), PermissionKind (SetExternalName infra ''infra''),
        \<lparr>remote = [createParametersOf infra], calls = [CreateCall (createParametersOf infra)]\<rparr>)
   \<and> ExternalName (SetExternalName infra ''infra'') = Some ''infra''
   \<and> Create (brokenClient errUnauthorized) (createParametersOf infra) ()
       = (Some errUnauthorized, ())
   \<and> ExternalName infra = None
   \<and> Create_op \<lparr>repositorypermission = brokenClient errUnauthorized\<rparr> (PermissionKind infra)
         \<lparr>remote = (), calls = []\<rparr> =
       ((ExternalCreation_zero,
         Some (WithMessage errUnauthorized ''failed to create repository permission'')),
        PermissionKind infra, \<lparr>remote = (), calls = [CreateCall (createParametersOf infra)]\<rparr>)"
proof -
  have ok: "Create (repositorypermission \<lparr>repositorypermission = storeClient\<rparr>)
              (createParametersOf infra) (remote \<lparr>remote = [], calls = []\<rparr>)
            = (None, [createParametersOf infra])"
    by (simp add: storeClient_def)
  have repo: "PermissionParameters.Repository (ForProvider (Spec infra)) = Some ''infra''"
    by (simp add: infra_def)
  have bad: "Create (repositorypermission \<lparr>repositorypermission = brokenClient errUnauthorized\<rparr>)
               (createParametersOf infra) (remote \<lparr>remote = (), calls = []\<rparr>)
             = (Some errUnauthorized, ())"
    by (simp add: brokenClient_def)
  have unset: "ExternalName infra = None"
    by (simp add: ExternalName_def infra_def)
  show ?thesis
    using Create_binds_external_name [where c = "\<lparr>repositorypermission = storeClient\<rparr>"
        and cr = infra and w = "\<lparr>remote = [], calls = []\<rparr>"
        and r' = "[createParametersOf infra]" and repo = "''infra''"]
      Create_binds_external_name [where c = "\<lparr>repositorypermission = brokenClient errUnauthorized\<rparr>"
        and cr = infra and w = "\<lparr>remote = (), calls = []\<rparr>" and r' = "()"
        and e = errUnauthorized]
      ok repo bad unset
    by (simp add: ExternalName_SetExternalName)
qed

section \<open>Delete\<close>

text \<open>
  Claim C5. For a Permission record, Delete returns nil when the client's Delete
  succeeds and when it fails with an error that IsNotFound accepts, and the wrapped
  error for any other failure. Hence two Deletes in a row on a record whose remote
  object is absent both return nil.
\<close>

theorem Delete_errors:
  "(Delete (repositorypermission c) (keyOf cr) (remote w) = (None, r')
      \<longrightarrow> Delete_op IsNotFound c (PermissionKind cr) w =
            (None, PermissionKind cr, \<lparr>remote = r', calls = calls w @ [DeleteCall (keyOf cr)]\<rparr>))
   \<and> (Delete (repositorypermission c) (keyOf cr) (remote w) = (Some e, r') \<and> IsNotFound (Some e)
      \<longrightarrow> Delete_op IsNotFound c (PermissionKind cr) w =
            (None, PermissionKind cr, \<lparr>remote = r', calls = calls w @ [DeleteCall (keyOf cr)]\<rparr>))
   \<and> (Delete (repositorypermission c) (keyOf cr) (remote w) = (Some e, r') \<and> \<not> IsNotFound (Some e)
      \<longrightarrow> Delete_op IsNotFound c (PermissionKind cr) w =
            (Some (WithMessage e ''cannot delete repositroy permission''), PermissionKind cr,
             \<lparr>remote = r', calls = calls w @ [DeleteCall (keyOf cr)]\<rparr>))
   \<and> (Delete (repositorypermission c) (keyOf cr) (remote w) = (Some ea, ra) \<and> IsNotFound (Some ea)
        \<and> Delete (repositorypermission c) (keyOf cr) ra = (Some eb, rb) \<and> IsNotFound (Some eb)
      \<longrightarrow> fst (Delete_op IsNotFound c (PermissionKind cr) w) = None
          \<and> fst (Delete_op IsNotFound c
                  (fst (snd (Delete_op IsNotFound c (PermissionKind cr) w)))
                  (snd (snd (Delete_op IsNotFound c (PermissionKind cr) w)))) = None)"
  by (simp add: Delete_op_def client_Delete_def Ignore_def)

theorem Delete_errors_witness:
  "Delete storeClient (keyOf infra) [createParametersOf infra] = (None, [])
   \<and> Delete_op store_IsNotFound \<lparr>repositorypermission = storeClient\<rparr> (PermissionKind infra)
         \<lparr>remote = [createParametersOf infra], calls = []\<rparr>
       = (None, PermissionKind infra, \<lparr>remote = [], calls = [DeleteCall (keyOf infra)]\<rparr>)
   \<and> Delete storeClient (keyOf infra) [] = (Some errRemoteNotFound, [])
   \<and> store_IsNotFound (Some errRemoteNotFound)
   \<and> Delete_op store_IsNotFound \<lparr>repositorypermission = storeClient\<rparr> (PermissionKind infra)
         \<lparr>remote = [], calls = []\<rparr>
       = (None, PermissionKind infra, \<lparr>remote = [], calls = [DeleteCall (keyOf infra)]\<rparr>)
   \<and> fst (Delete_op store_IsNotFound \<lparr>repositorypermission = storeClient\<rparr> (PermissionKind infra)
         \<lparr>remote = [], calls = [DeleteCall (keyOf infra)]\<rparr>) = None
   \<and> Delete (brokenClient errUnauthorized) (keyOf infra) () = (Some errUnauthorized, ())
   \<and> \<not> store_IsNotFound (Some errUnauthorized)
   \<and> Delete_op store_IsNotFound \<lparr>repositorypermission = brokenClient errUnauthorized\<rparr>
         (PermissionKind infra) \<lparr>remote = (), calls = []\<rparr>
       = (Some (WithMessage errUnauthorized ''cannot delete repositroy permission''),
          PermissionKind infra, \<lparr>remote = (), calls = [DeleteCall (keyOf infra)]\<rparr>)"
proof -
  have present: "Delete (repositorypermission \<lparr>repositorypermission = storeClient\<rparr>) (keyOf infra)
                   (remote \<lparr>remote = [createParametersOf infra], calls = []\<rparr>) = (None, [])"
    by (simp add: double_defs)
  have absent: "Delete (repositorypermission \<lparr>repositorypermission = storeClient\<rparr>) (keyOf infra)
                  (remote \<lparr>remote = [], calls = []\<rparr>) = (Some errRemoteNotFound, [])"
    by (simp add: storeClient_def)
  have again: "Delete (repositorypermission \<lparr>repositorypermission = storeClient\<rparr>) (keyOf infra) []
                 = (Some errRemoteNotFound, [])"
    by (simp add: storeClient_def)
  have nf: "store_IsNotFound (Some errRemoteNotFound)"
    by (simp add: store_IsNotFound_def)
  have bad: "Delete (repositorypermission \<lparr>repositorypermission = brokenClient errUnauthorized\<rparr>)
               (keyOf infra) (remote \<lparr>remote = (), calls = []\<rparr>) = (Some errUnauthorized, ())"
    by (simp add: brokenClient_def)
  have other: "\<not> store_IsNotFound (Some errUnauthorized)"
    by (simp add: store_IsNotFound_def errUnauthorized_def errRemoteNotFound_def)
  have first: "Delete_op store_IsNotFound \<lparr>repositorypermission = storeClient\<rparr>
                 (PermissionKind infra) \<lparr>remote = [], calls = []\<rparr>
               = (None, PermissionKind infra, \<lparr>remote = [], calls = [DeleteCall (keyOf infra)]\<rparr>)"
    using Delete_errors [where IsNotFound = store_IsNotFound
        and c = "\<lparr>repositorypermission = storeClient\<rparr>" and cr = infra
        and w = "\<lparr>remote = [], calls = []\<rparr>" and r' = "[]" and e = errRemoteNotFound
        and ea = errRemoteNotFound and ra = "[]" and eb = errRemoteNotFound and rb = "[]"]
      absent again nf
    by simp
  have second: "fst (Delete_op store_IsNotFound \<lparr>repositorypermission = storeClient\<rparr>
                  (PermissionKind infra) \<lparr>remote = [], calls = [DeleteCall (keyOf infra)]\<rparr>) = None"
    using Delete_errors [where IsNotFound = store_IsNotFound
        and c = "\<lparr>repositorypermission = storeClient\<rparr>" and cr = infra
        and w = "\<lparr>remote = [], calls = []\<rparr>" and r' = "[]" and e = errRemoteNotFound
        and ea = errRemoteNotFound and ra = "[]" and eb = errRemoteNotFound and rb = "[]"]
      absent again nf
    by (simp add: first)
  have gone: "Delete_op store_IsNotFound \<lparr>repositorypermission = storeClient\<rparr>
                (PermissionKind infra) \<lparr>remote = [createParametersOf infra], calls = []\<rparr>
              = (None, PermissionKind infra, \<lparr>remote = [], calls = [DeleteCall (keyOf infra)]\<rparr>)"
    using Delete_errors [where IsNotFound = store_IsNotFound
        and c = "\<lparr>repositorypermission = storeClient\<rparr>" and cr = infra
        and w = "\<lparr>remote = [createParametersOf infra], calls = []\<rparr>" and r' = "[]"]
      present
    by simp
  have refused: "Delete_op store_IsNotFound \<lparr>repositorypermission = brokenClient errUnauthorized\<rparr>
                   (PermissionKind infra) \<lparr>remote = (), calls = []\<rparr>
                 = (Some (WithMessage errUnauthorized ''cannot delete repositroy permission''),
                    PermissionKind infra, \<lparr>remote = (), calls = [DeleteCall (keyOf infra)]\<rparr>)"
    using Delete_errors [where IsNotFound = store_IsNotFound
        and c = "\<lparr>repositorypermission = brokenClient errUnauthorized\<rparr>" and cr = infra
        and w = "\<lparr>remote = (), calls = []\<rparr>" and r' = "()" and e = errUnauthorized]
      bad other
    by simp
  show ?thesis
    using present absent nf bad other first second gone refused by simp
qed

section \<open>Connect\<close>

text \<open>
  Claim C6. Connect checks the kind, then tracks usage, then resolves the
  configuration, then builds the client. A resource of another kind gets the wrong-kind
  error and no call is made; a tracker failure is returned wrapped and the configuration
  is not looked up; a configuration failure is returned wrapped after the tracker ran;
  a client is returned only when every step before succeeded, and then without error.
\<close>

theorem Connect_steps:
  "Connect cn (OtherKind kind om) w = ((None, Some (New errNotPermission)), w)
   \<and> (usage_Track cn (PermissionKind cr) (remote w) = (Some e, ra)
      \<longrightarrow> Connect cn (PermissionKind cr) w =
            ((None, Some (WithMessage e errTrackPCUsage)),
             \<lparr>remote = ra, calls = calls w @ [TrackCall]\<rparr>))
   \<and> (usage_Track cn (PermissionKind cr) (remote w) = (None, ra)
        \<and> NewConfig cn cr ra = (Inl e, rb)
      \<longrightarrow> Connect cn (PermissionKind cr) w =
            ((None, Some (WithMessage e errNewClient)),
             \<lparr>remote = rb, calls = calls w @ [TrackCall, NewConfigCall]\<rparr>))
   \<and> (usage_Track cn (PermissionKind cr) (remote w) = (None, ra)
        \<and> NewConfig cn cr ra = (Inr cfg, rb)
      \<longrightarrow> Connect cn (PermissionKind cr) w =
            ((Some \<lparr>repositorypermission = NewClient cn cfg\<rparr>, None),
             \<lparr>remote = rb, calls = calls w @ [TrackCall, NewConfigCall]\<rparr>))
   \<and> (fst (fst (Connect cn mg w)) \<noteq> None
        \<longleftrightarrow> (\<exists>cr'. mg = PermissionKind cr'
               \<and> fst (usage_Track cn mg (remote w)) = None
               \<and> (\<exists>cfg'. fst (NewConfig cn cr' (snd (usage_Track cn mg (remote w)))) = Inr cfg')))
   \<and> (fst (fst (Connect cn mg w)) \<noteq> None \<longleftrightarrow> snd (fst (Connect cn mg w)) = None)"
proof -
  have wrong: "Connect cn (OtherKind kind om) w = ((None, Some (New errNotPermission)), w)"
    by (simp add: Connect_def)
  have track: "usage_Track cn (PermissionKind cr) (remote w) = (Some e, ra)
      \<longrightarrow> Connect cn (PermissionKind cr) w =
            ((None, Some (WithMessage e errTrackPCUsage)),
             \<lparr>remote = ra, calls = calls w @ [TrackCall]\<rparr>)"
    by (simp add: Connect_def connector_Track_def)
  have config: "usage_Track cn (PermissionKind cr) (remote w) = (None, ra)
        \<and> NewConfig cn cr ra = (Inl e, rb)
      \<longrightarrow> Connect cn (PermissionKind cr) w =
            ((None, Some (WithMessage e errNewClient)),
             \<lparr>remote = rb, calls = calls w @ [TrackCall, NewConfigCall]\<rparr>)"
    by (simp add: Connect_def connector_Track_def connector_NewConfig_def)
  have client: "usage_Track cn (PermissionKind cr) (remote w) = (None, ra)
        \<and> NewConfig cn cr ra = (Inr cfg, rb)
      \<longrightarrow> Connect cn (PermissionKind cr) w =
            ((Some \<lparr>repositorypermission = NewClient cn cfg\<rparr>, None),
             \<lparr>remote = rb, calls = calls w @ [TrackCall, NewConfigCall]\<rparr>)"
    by (simp add: Connect_def connector_Track_def connector_NewConfig_def)
  have only: "fst (fst (Connect cn mg w)) \<noteq> None
        \<longleftrightarrow> (\<exists>cr'. mg = PermissionKind cr'
               \<and> fst (usage_Track cn mg (remote w)) = None
               \<and> (\<exists>cfg'. fst (NewConfig cn cr' (snd (usage_Track cn mg (remote w)))) = Inr cfg'))"
    by (cases mg)
      (auto simp: Connect_def connector_Track_def connector_NewConfig_def
        split: prod.splits sum.splits)
  have either: "fst (fst (Connect cn mg w)) \<noteq> None \<longleftrightarrow> snd (fst (Connect cn mg w)) = None"
    by (cases mg)
      (auto simp: Connect_def connector_Track_def connector_NewConfig_def
        split: prod.splits sum.splits)
  from wrong track config client only either show ?thesis by blast
qed

theorem Connect_steps_witness:
  "Connect (stubConnector None (Inr ''token'')) teamResource \<lparr>remote = [], calls = []\<rparr>
     = ((None, Some (New errNotPermission)), \<lparr>remote = [], calls = []\<rparr>)
   \<and> usage_Track (stubConnector (Some errUnauthorized) (Inr ''token'')) (PermissionKind infra) []
       = (Some errUnauthorized, [])
   \<and> Connect (stubConnector (Some errUnauthorized) (Inr ''token'')) (PermissionKind infra)
         \<lparr>remote = [], calls = []\<rparr>
       = ((None, Some (WithMessage errUnauthorized errTrackPCUsage)),
          \<lparr>remote = [], calls = [TrackCall]\<rparr>)
   \<and> usage_Track (stubConnector None (Inl errUnauthorized)) (PermissionKind infra) [] = (None, [])
   \<and> NewConfig (stubConnector None (Inl errUnauthorized)) infra [] = (Inl errUnauthorized, [])
   \<and> Connect (stubConnector None (Inl errUnauthorized)) (PermissionKind infra)
         \<lparr>remote = [], calls = []\<rparr>
       = ((None, Some (WithMessage errUnauthorized errNewClient)),
          \<lparr>remote = [], calls = [TrackCall, NewConfigCall]\<rparr>)
   \<and> usage_Track (stubConnector None (Inr ''token'')) (PermissionKind infra) [] = (None, [])
   \<and> NewConfig (stubConnector None (Inr ''token'')) infra [] = (Inr ''token'', [])
   \<and> Connect (stubConnector None (Inr ''token'')) (PermissionKind infra)
         \<lparr>remote = [], calls = []\<rparr>
       = ((Some \<lparr>repositorypermission = storeClient\<rparr>, None),
          \<lparr>remote = [], calls = [TrackCall, NewConfigCall]\<rparr>)"
proof -
  have wrong: "Connect (stubConnector None (Inr ''token'')) teamResource \<lparr>remote = [], calls = []\<rparr>
     = ((None, Some (New errNotPermission)), \<lparr>remote = [], calls = []\<rparr>)"
    using Connect_steps [where cn = "stubConnector None (Inr ''token'')" and kind = "''Team''"
        and om = "\<lparr>Name = ''sre'', Annotations = Map.empty\<rparr>"
        and w = "\<lparr>remote = [], calls = []\<rparr>"]
    by (simp add: teamResource_def)
  have t1: "usage_Track (stubConnector (Some errUnauthorized) (Inr ''token'')) (PermissionKind infra) []
       = (Some errUnauthorized, [])"
    by (simp add: stubConnector_def)
  have track: "Connect (stubConnector (Some errUnauthorized) (Inr ''token'')) (PermissionKind infra)
         \<lparr>remote = [], calls = []\<rparr>
       = ((None, Some (WithMessage errUnauthorized errTrackPCUsage)),
          \<lparr>remote = [], calls = [TrackCall]\<rparr>)"
    using Connect_steps [where cn = "stubConnector (Some errUnauthorized) (Inr ''token'')"
        and cr = infra and w = "\<lparr>remote = [], calls = []\<rparr>" and e = errUnauthorized
        and ra = "[]"] t1
    by simp
  have t2: "usage_Track (stubConnector None (Inl errUnauthorized)) (PermissionKind infra) [] = (None, [])"
    by (simp add: stubConnector_def)
  have c2: "NewConfig (stubConnector None (Inl errUnauthorized)) infra [] = (Inl errUnauthorized, [])"
    by (simp add: stubConnector_def)
  have config: "Connect (stubConnector None (Inl errUnauthorized)) (PermissionKind infra)
         \<lparr>remote = [], calls = []\<rparr>
       = ((None, Some (WithMessage errUnauthorized errNewClient)),
          \<lparr>remote = [], calls = [TrackCall, NewConfigCall]\<rparr>)"
    using Connect_steps [where cn = "stubConnector None (Inl errUnauthorized)"
        and cr = infra and w = "\<lparr>remote = [], calls = []\<rparr>" and e = errUnauthorized
        and ra = "[]" and rb = "[]"] t2 c2
    by simp
  have t3: "usage_Track (stubConnector None (Inr ''token'')) (PermissionKind infra) [] = (None, [])"
    by (simp add: stubConnector_def)
  have c3: "NewConfig (stubConnector None (Inr ''token'')) infra [] = (Inr ''token'', [])"
    by (simp add: stubConnector_def)
  have n3: "NewClient (stubConnector None (Inr ''token'')) ''token'' = storeClient"
    by (simp add: stubConnector_def)
  have client: "Connect (stubConnector None (Inr ''token'')) (PermissionKind infra)
         \<lparr>remote = [], calls = []\<rparr>
       = ((Some \<lparr>repositorypermission = storeClient\<rparr>, None),
          \<lparr>remote = [], calls = [TrackCall, NewConfigCall]\<rparr>)"
    using Connect_steps [where cn = "stubConnector None (Inr ''token'')"
        and cr = infra and w = "\<lparr>remote = [], calls = []\<rparr>" and cfg = "''token''"
        and ra = "[]" and rb = "[]"] t3 c3 n3
    by simp
  show ?thesis
    using wrong t1 track t2 c2 config t3 c3 client by simp
qed

section \<open>Update\<close>

text \<open>
  Claim C7. Update returns the empty update result and a nil error for every
  resource of any kind, makes no call, and leaves the resource and the world as they
  were.
\<close>

theorem Update_noop:
  "Update c mg w = ((ExternalUpdate_zero, None), mg, w)
   \<and> snd (fst (Update c mg w)) = None
   \<and> ExternalUpdate.ConnectionDetails (fst (fst (Update c mg w))) = Map.empty
   \<and> fst (snd (Update c mg w)) = mg
   \<and> remote (snd (snd (Update c mg w))) = remote w
   \<and> calls (snd (snd (Update c mg w))) = calls w"
  by (simp add: Update_def ExternalUpdate_zero_def)

theorem Update_noop_witness:
  "Update \<lparr>repositorypermission = storeClient\<rparr> (PermissionKind infra)
       \<lparr>remote = [createParametersOf infra], calls = []\<rparr>
     = ((ExternalUpdate_zero, None), PermissionKind infra,
        \<lparr>remote = [createParametersOf infra], calls = []\<rparr>)
   \<and> Update \<lparr>repositorypermission = brokenClient errUnauthorized\<rparr> teamResource
       \<lparr>remote = (), calls = []\<rparr>
     = ((ExternalUpdate_zero, None), teamResource, \<lparr>remote = (), calls = []\<rparr>)"
  using Update_noop [of "\<lparr>repositorypermission = storeClient\<rparr>" "PermissionKind infra"
      "\<lparr>remote = [createParametersOf infra], calls = []\<rparr>"]
    Update_noop [of "\<lparr>repositorypermission = brokenClient errUnauthorized\<rparr>" teamResource
      "\<lparr>remote = (), calls = []\<rparr>"]
  by simp

section \<open>The external name\<close>

text \<open>
  Claim C8, as the code has it. Observe, Update and Delete never change the external
  name of a resource, and neither does Create on a resource of another kind or when
  the client's Create fails. A successful Create on a Permission writes the repository
  of the record's spec, whatever the external name was before, and leaves the spec as
  it is; so it keeps a name that was set exactly when that name already is the
  repository.
\<close>

theorem external_name_writes:
  "Managed_ExternalName (fst (snd (Observe IsNotFound c mg w))) = Managed_ExternalName mg
   \<and> Managed_ExternalName (fst (snd (Update c mg w))) = Managed_ExternalName mg
   \<and> Managed_ExternalName (fst (snd (Delete_op IsNotFound c mg w))) = Managed_ExternalName mg
   \<and> Managed_ExternalName (fst (snd (Create_op c (OtherKind kind om) w)))
       = Managed_ExternalName (OtherKind kind om)
   \<and> (fst (Create (repositorypermission c) (createParametersOf cr) (remote w)) \<noteq> None
      \<longrightarrow> snd (fst (Create_op c (PermissionKind cr) w)) \<noteq> None
          \<and> Managed_ExternalName (fst (snd (Create_op c (PermissionKind cr) w))) = ExternalName cr)
   \<and> (fst (Create (repositorypermission c) (createParametersOf cr) (remote w)) = None
      \<longrightarrow> snd (fst (Create_op c (PermissionKind cr) w)) = None
          \<and> Managed_ExternalName (fst (snd (Create_op c (PermissionKind cr) w)))
              = Some (StringDeref (PermissionParameters.Repository (ForProvider (Spec cr))) '''')
          \<and> (Managed_ExternalName (fst (snd (Create_op c (PermissionKind cr) w))) = ExternalName cr
               \<longleftrightarrow> ExternalName cr
                     = Some (StringDeref (PermissionParameters.Repository (ForProvider (Spec cr))) '''')))
   \<and> (\<exists>cr'. fst (snd (Create_op c (PermissionKind cr) w)) = PermissionKind cr'
         \<and> Spec cr' = Spec cr \<and> Permission.Status cr' = Permission.Status cr)"
proof -
  have upd: "Managed_ExternalName (fst (snd (Update c mg w))) = Managed_ExternalName mg"
    by (simp add: Update_def)
  have other: "Managed_ExternalName (fst (snd (Create_op c (OtherKind kind om) w)))
       = Managed_ExternalName (OtherKind kind om)"
    by (simp add: Create_op_def)
  have failed: "fst (Create (repositorypermission c) (createParametersOf cr) (remote w)) \<noteq> None
      \<longrightarrow> snd (fst (Create_op c (PermissionKind cr) w)) \<noteq> None
          \<and> Managed_ExternalName (fst (snd (Create_op c (PermissionKind cr) w))) = ExternalName cr"
    by (auto simp: Create_op_def client_Create_def Managed_ExternalName_def split: prod.splits)
  have created: "fst (Create (repositorypermission c) (createParametersOf cr) (remote w)) = None
      \<longrightarrow> snd (fst (Create_op c (PermissionKind cr) w)) = None
          \<and> Managed_ExternalName (fst (snd (Create_op c (PermissionKind cr) w)))
              = Some (StringDeref (PermissionParameters.Repository (ForProvider (Spec cr))) '''')"
    by (auto simp: Create_op_def client_Create_def Managed_ExternalName_def
        ExternalName_SetExternalName split: prod.splits)
  show ?thesis
    using Managed_ExternalName_Observe [of IsNotFound c mg w] upd
      Managed_ExternalName_Delete [of IsNotFound c mg w]
      other failed created Create_keeps_spec [of c cr w]
    by auto
qed

theorem external_name_writes_witness:
  "ExternalName imported = Some ''old''
   \<and> Managed_ExternalName (fst (snd (Observe store_IsNotFound \<lparr>repositorypermission = storeClient\<rparr>
         (PermissionKind imported) \<lparr>remote = [], calls = []\<rparr>))) = Some ''old''
   \<and> Managed_ExternalName (fst (snd (Update \<lparr>repositorypermission = storeClient\<rparr>
         (PermissionKind imported) \<lparr>remote = [], calls = []\<rparr>))) = Some ''old''
   \<and> Managed_ExternalName (fst (snd (Delete_op store_IsNotFound \<lparr>repositorypermission = storeClient\<rparr>
         (PermissionKind imported) \<lparr>remote = [], calls = []\<rparr>))) = Some ''old''
   \<and> fst (Create (brokenClient errUnauthorized) (createParametersOf imported) ())
       = Some errUnauthorized
   \<and> Managed_ExternalName (fst (snd (Create_op \<lparr>repositorypermission = brokenClient errUnauthorized\<rparr>
         (PermissionKind imported) \<lparr>remote = (), calls = []\<rparr>))) = Some ''old''
   \<and> fst (Create storeClient (createParametersOf imported) []) = None
   \<and> snd (fst (Create_op \<lparr>repositorypermission = storeClient\<rparr>
         (PermissionKind imported) \<lparr>remote = [], calls = []\<rparr>)) = None
   \<and> Managed_ExternalName (fst (snd (Create_op \<lparr>repositorypermission = storeClient\<rparr>
         (PermissionKind imported) \<lparr>remote = [], calls = []\<rparr>))) = Some ''infra''"
proof -
  have n: "ExternalName imported = Some ''old''"
    by (simp add: imported_def ExternalName_SetExternalName)
  have m: "Managed_ExternalName (PermissionKind imported) = Some ''old''"
    by (simp add: Managed_ExternalName_def n)
  have r: "StringDeref (PermissionParameters.Repository (ForProvider (Spec imported))) ''''
             = ''infra''"
    by (simp add: imported_def SetExternalName_def infra_def)
  have bad: "fst (Create (repositorypermission \<lparr>repositorypermission = brokenClient errUnauthorized\<rparr>)
               (createParametersOf imported) (remote \<lparr>remote = (), calls = []\<rparr>))
             = Some errUnauthorized"
    by (simp add: brokenClient_def)
  have ok: "fst (Create (repositorypermission \<lparr>repositorypermission = storeClient\<rparr>)
              (createParametersOf imported) (remote \<lparr>remote = [], calls = []\<rparr>)) = None"
    by (simp add: storeClient_def)
  have kept: "Managed_ExternalName (fst (snd (Create_op
                 \<lparr>repositorypermission = brokenClient errUnauthorized\<rparr>
                 (PermissionKind imported) \<lparr>remote = (), calls = []\<rparr>))) = Some ''old''"
    using external_name_writes [where IsNotFound = store_IsNotFound
        and c = "\<lparr>repositorypermission = brokenClient errUnauthorized\<rparr>"
        and mg = "PermissionKind imported" and cr = imported
        and kind = "''Team''" and om = "\<lparr>Name = ''sre'', Annotations = Map.empty\<rparr>"
        and w = "\<lparr>remote = (), calls = []\<rparr>"] bad n
    by simp
  have rest: "Managed_ExternalName (fst (snd (Observe store_IsNotFound
                 \<lparr>repositorypermission = storeClient\<rparr>
                 (PermissionKind imported) \<lparr>remote = [], calls = []\<rparr>))) = Some ''old''
      \<and> Managed_ExternalName (fst (snd (Update \<lparr>repositorypermission = storeClient\<rparr>
            (PermissionKind imported) \<lparr>remote = [], calls = []\<rparr>))) = Some ''old''
      \<and> Managed_ExternalName (fst (snd (Delete_op store_IsNotFound
            \<lparr>repositorypermission = storeClient\<rparr>
            (PermissionKind imported) \<lparr>remote = [], calls = []\<rparr>))) = Some ''old''
      \<and> snd (fst (Create_op \<lparr>repositorypermission = storeClient\<rparr>
            (PermissionKind imported) \<lparr>remote = [], calls = []\<rparr>)) = None
      \<and> Managed_ExternalName (fst (snd (Create_op \<lparr>repositorypermission = storeClient\<rparr>
            (PermissionKind imported) \<lparr>remote = [], calls = []\<rparr>))) = Some ''infra''"
    using external_name_writes [where IsNotFound = store_IsNotFound
        and c = "\<lparr>repositorypermission = storeClient\<rparr>"
        and mg = "PermissionKind imported" and cr = imported
        and kind = "''Team''" and om = "\<lparr>Name = ''sre'', Annotations = Map.empty\<rparr>"
        and w = "\<lparr>remote = [], calls = []\<rparr>"] ok m r
    by simp
  show ?thesis
    using n bad ok kept rest by simp
qed

text \<open>
  The invariant of claim C8 as first stated does not hold: a record whose external name
  is set to "old" and whose repository is "infra" has the name "infra" after a
  successful Create.
\<close>

theorem Create_reassigns_set_external_name:
  "ExternalName imported = Some ''old''
   \<and> snd (fst (Create_op \<lparr>repositorypermission = storeClient\<rparr>
         (PermissionKind imported) \<lparr>remote = [], calls = []\<rparr>)) = None
   \<and> Managed_ExternalName (fst (snd (Create_op \<lparr>repositorypermission = storeClient\<rparr>
         (PermissionKind imported) \<lparr>remote = [], calls = []\<rparr>))) = Some ''infra''
   \<and> Managed_ExternalName (fst (snd (Create_op \<lparr>repositorypermission = storeClient\<rparr>
         (PermissionKind imported) \<lparr>remote = [], calls = []\<rparr>))) \<noteq> ExternalName imported"
  by (simp add: imported_def infra_def Create_op_def client_Create_def storeClient_def
      createParametersOf_def Managed_ExternalName_def ExternalName_def SetExternalName_def)

section \<open>Resources of another kind\<close>

text \<open>
  Claim C9. Given a resource that is not a Permission, Observe, Create and Delete
  return the wrong-kind error that Connect returns, with the zero value of their result
  (Delete has none), make no call and leave the resource unchanged.
\<close>

theorem wrong_kind_everywhere:
  "Observe IsNotFound c (OtherKind kind om) w =
     ((ExternalObservation_zero, Some (New errNotPermission)), OtherKind kind om, w)
   \<and> Create_op c (OtherKind kind om) w =
       ((ExternalCreation_zero, Some (New errNotPermission)), OtherKind kind om, w)
   \<and> Delete_op IsNotFound c (OtherKind kind om) w =
       (Some (New errNotPermission), OtherKind kind om, w)
   \<and> snd (fst (Connect cn (OtherKind kind om) w)) = Some (New errNotPermission)
   \<and> Error (New errNotPermission)
       = ''managed resource is not a RepositoryPermission custom resource''
   \<and> ExternalObservation_zero =
       \<lparr>ResourceExists = False, ResourceUpToDate = False, ResourceLateInitialized = False,
        ExternalObservation.ConnectionDetails = Map.empty\<rparr>
   \<and> ExternalCreation_zero = \<lparr>ExternalCreation.ConnectionDetails = Map.empty\<rparr>"
  by (simp add: Observe_def Create_op_def Delete_op_def Connect_def New_def errNotPermission_def
      ExternalObservation_zero_def ExternalCreation_zero_def)

theorem wrong_kind_everywhere_witness:
  "Observe store_IsNotFound \<lparr>repositorypermission = storeClient\<rparr> teamResource
       \<lparr>remote = [], calls = []\<rparr>
     = ((ExternalObservation_zero, Some (New errNotPermission)), teamResource,
        \<lparr>remote = [], calls = []\<rparr>)
   \<and> Create_op \<lparr>repositorypermission = storeClient\<rparr> teamResource \<lparr>remote = [], calls = []\<rparr>
     = ((ExternalCreation_zero, Some (New errNotPermission)), teamResource,
        \<lparr>remote = [], calls = []\<rparr>)
   \<and> Delete_op store_IsNotFound \<lparr>repositorypermission = storeClient\<rparr> teamResource
       \<lparr>remote = [], calls = []\<rparr>
     = (Some (New errNotPermission), teamResource, \<lparr>remote = [], calls = []\<rparr>)"
  using wrong_kind_everywhere [where IsNotFound = store_IsNotFound
      and c = "\<lparr>repositorypermission = storeClient\<rparr>" and kind = "''Team''"
      and cn = "stubConnector None (Inr ''token'')"
      and om = "\<lparr>Name = ''sre'', Annotations = Map.empty\<rparr>"
      and w = "\<lparr>remote = [], calls = []\<rparr>"]
  by (simp add: teamResource_def)

section \<open>Optional fields left nil\<close>

text \<open>
  Claim C10. When the repository or the team of a Permission record is nil, Observe,
  Create and Delete send the empty string in its place; they return no error when the
  client's call succeeds, and a successful Create on a record without a repository sets
  the external name to the empty string.
\<close>

theorem nil_fields_sent_as_empty_strings:
  "(PermissionParameters.Repository (ForProvider (Spec cr)) = None
      \<longrightarrow> calls (snd (snd (Observe IsNotFound c (PermissionKind cr) w)))
            = calls w @ [GetCall \<lparr>GetParameters.Repository = '''',
                  GetParameters.Organization = OrganizationName (ForProvider (Spec cr)),
                  GetParameters.TeamID =
                    StringDeref (PermissionParameters.TeamID (ForProvider (Spec cr))) ''''\<rparr>]
          \<and> calls (snd (snd (Create_op c (PermissionKind cr) w)))
            = calls w @ [CreateCall \<lparr>CreateParameters.Repository = '''',
                  CreateParameters.Organization = OrganizationName (ForProvider (Spec cr)),
                  CreateParameters.TeamID =
                    StringDeref (PermissionParameters.TeamID (ForProvider (Spec cr))) '''',
                  CreateParameters.Permission =
                    PermissionParameters.Permission (ForProvider (Spec cr))\<rparr>]
          \<and> calls (snd (snd (Delete_op IsNotFound c (PermissionKind cr) w)))
            = calls w @ [DeleteCall \<lparr>GetParameters.Repository = '''',
                  GetParameters.Organization = OrganizationName (ForProvider (Spec cr)),
                  GetParameters.TeamID =
                    StringDeref (PermissionParameters.TeamID (ForProvider (Spec cr))) ''''\<rparr>])
   \<and> (PermissionParameters.TeamID (ForProvider (Spec cr)) = None
      \<longrightarrow> calls (snd (snd (Observe IsNotFound c (PermissionKind cr) w)))
            = calls w @ [GetCall \<lparr>GetParameters.Repository =
                    StringDeref (PermissionParameters.Repository (ForProvider (Spec cr))) '''',
                  GetParameters.Organization = OrganizationName (ForProvider (Spec cr)),
                  GetParameters.TeamID = ''''\<rparr>]
          \<and> calls (snd (snd (Create_op c (PermissionKind cr) w)))
            = calls w @ [CreateCall \<lparr>CreateParameters.Repository =
                    StringDeref (PermissionParameters.Repository (ForProvider (Spec cr))) '''',
                  CreateParameters.Organization = OrganizationName (ForProvider (Spec cr)),
                  CreateParameters.TeamID = '''',
                  CreateParameters.Permission =
                    PermissionParameters.Permission (ForProvider (Spec cr))\<rparr>]
          \<and> calls (snd (snd (Delete_op IsNotFound c (PermissionKind cr) w)))
            = calls w @ [DeleteCall \<lparr>GetParameters.Repository =
                    StringDeref (PermissionParameters.Repository (ForProvider (Spec cr))) '''',
                  GetParameters.Organization = OrganizationName (ForProvider (Spec cr)),
                  GetParameters.TeamID = ''''\<rparr>])
   \<and> (PermissionParameters.Repository (ForProvider (Spec cr)) = None
        \<and> fst (Create (repositorypermission c) (createParametersOf cr) (remote w)) = None
      \<longrightarrow> snd (fst (Create_op c (PermissionKind cr) w)) = None
          \<and> Managed_ExternalName (fst (snd (Create_op c (PermissionKind cr) w))) = Some '''')
   \<and> (fst (Get (repositorypermission c) (keyOf cr) (remote w)) = None
      \<longrightarrow> snd (fst (Observe IsNotFound c (PermissionKind cr) w)) = None)
   \<and> (fst (Delete (repositorypermission c) (keyOf cr) (remote w)) = None
      \<longrightarrow> fst (Delete_op IsNotFound c (PermissionKind cr) w) = None)"
  by (auto simp: Observe_def Create_op_def Delete_op_def client_Get_def client_Create_def
      client_Delete_def keyOf_def createParametersOf_def Managed_ExternalName_def
      ExternalName_SetExternalName Ignore_def split: prod.splits)

theorem nil_fields_sent_as_empty_strings_witness:
  "PermissionParameters.Repository (ForProvider (Spec nilFields)) = None
   \<and> PermissionParameters.TeamID (ForProvider (Spec nilFields)) = None
   \<and> calls (snd (snd (Observe store_IsNotFound \<lparr>repositorypermission = storeClient\<rparr>
        (PermissionKind nilFields) \<lparr>remote = [], calls = []\<rparr>)))
      = [GetCall \<lparr>GetParameters.Repository = '''', GetParameters.Organization = ''acme'',
                  GetParameters.TeamID = ''''\<rparr>]
   \<and> calls (snd (snd (Create_op \<lparr>repositorypermission = storeClient\<rparr>
        (PermissionKind nilFields) \<lparr>remote = [], calls = []\<rparr>)))
      = [CreateCall \<lparr>CreateParameters.Repository = '''', CreateParameters.Organization = ''acme'',
                     CreateParameters.TeamID = '''', CreateParameters.Permission = ''read''\<rparr>]
   \<and> calls (snd (snd (Delete_op store_IsNotFound \<lparr>repositorypermission = storeClient\<rparr>
        (PermissionKind nilFields) \<lparr>remote = [], calls = []\<rparr>)))
      = [DeleteCall \<lparr>GetParameters.Repository = '''', GetParameters.Organization = ''acme'',
                     GetParameters.TeamID = ''''\<rparr>]
   \<and> fst (Create storeClient (createParametersOf nilFields) []) = None
   \<and> snd (fst (Create_op \<lparr>repositorypermission = storeClient\<rparr>
        (PermissionKind nilFields) \<lparr>remote = [], calls = []\<rparr>)) = None
   \<and> Managed_ExternalName (fst (snd (Create_op \<lparr>repositorypermission = storeClient\<rparr>
        (PermissionKind nilFields) \<lparr>remote = [], calls = []\<rparr>))) = Some ''''"
proof -
  have r: "PermissionParameters.Repository (ForProvider (Spec nilFields)) = None"
    and t: "PermissionParameters.TeamID (ForProvider (Spec nilFields)) = None"
    and org: "OrganizationName (ForProvider (Spec nilFields)) = ''acme''"
    and p: "PermissionParameters.Permission (ForProvider (Spec nilFields)) = ''read''"
    by (simp_all add: nilFields_def)
  have ok: "fst (Create storeClient (createParametersOf nilFields) []) = None"
    by (simp add: storeClient_def)
  show ?thesis
    using nil_fields_sent_as_empty_strings [where IsNotFound = store_IsNotFound
        and c = "\<lparr>repositorypermission = storeClient\<rparr>" and cr = nilFields
        and w = "\<lparr>remote = [], calls = []\<rparr>"] r t org p ok
    by simp
qed

end
